theory Spec2Isabelle
  imports Complex_Main
begin

section \<open>Reconstruction of the WRF grid (wrf\_reproduce\_grid.py)\<close>

text \<open>
  Numbers. The script computes with Python integers, NumPy integers and IEEE doubles.
  All of them are embedded in \<^typ>\<open>rat\<close>: the operations the script uses
  (\<open>%\<close>, \<open>//\<close>, \<open>/ 2.\<close>, \<open>+\<close>, \<open>-\<close>, \<open>*\<close>) are given their exact mathematical
  meaning, which is also what Python computes as long as no rounding, overflow or NaN
  occurs. Rounding of doubles is outside this development.
\<close>

subsection \<open>Python and NumPy primitives\<close>

text \<open>\<open>n % 2\<close>: the remainder has the sign of the divisor, for integers and floats alike.\<close>

definition mod2 :: "rat \<Rightarrow> rat" where
  "mod2 n = n - 2 * of_int \<lfloor>n / 2\<rfloor>"

text \<open>\<open>n // 2\<close> and \<open>n // 2.\<close>: floor division.\<close>

definition floordiv2 :: "rat \<Rightarrow> rat" where
  "floordiv2 n = of_int \<lfloor>n / 2\<rfloor>"

text \<open>
  \<open>np.arange(start, stop, 1)\<close>: \<open>ceil(stop - start)\<close> values (none when that is not
  positive), the \<open>i\<close>-th being \<open>start + i\<close>.
\<close>

definition arange1 :: "rat \<Rightarrow> rat \<Rightarrow> rat list" where
  "arange1 start stop = map (\<lambda>i. start + of_nat i) [0..<nat \<lceil>stop - start\<rceil>]"

text \<open>
  A two-dimensional \<open>ndarray\<close>: its shape (rows, columns) and its elements in row-major
  order.
\<close>

record ndarray =
  shape :: "nat \<times> nat"
  elems :: "rat list"

definition wf_ndarray :: "ndarray \<Rightarrow> bool" where
  "wf_ndarray a = (length (elems a) = fst (shape a) * snd (shape a))"

text \<open>
  \<open>np.meshgrid(x, y)\<close> with the default \<open>indexing='xy'\<close>: two arrays of shape
  \<open>(len(y), len(x))\<close>; row \<open>i\<close> of the first is \<open>x\<close>, row \<open>i\<close> of the second is
  \<open>y[i]\<close> repeated.
\<close>

definition meshgrid :: "rat list \<Rightarrow> rat list \<Rightarrow> ndarray \<times> ndarray" where
  "meshgrid x y =
     (\<lparr>shape = (length y, length x), elems = concat (replicate (length y) x)\<rparr>,
      \<lparr>shape = (length y, length x), elems = concat (map (\<lambda>v. replicate (length x) v) y)\<rparr>)"

subsection \<open>reconstruct\_grid\<close>

text \<open>
  The dictionary built by \<open>get_wrf_grid_params\<close> always has exactly the four keys
  \<open>dx\<close>, \<open>dy\<close>, \<open>nx\<close>, \<open>ny\<close>.
\<close>

record grid_params =
  dx :: rat
  dy :: rat
  nx :: rat
  ny :: rat

text \<open>The inner function \<open>make_grid_coordinate(nx, dx)\<close>.\<close>

definition make_grid_coordinate :: "rat \<Rightarrow> rat \<Rightarrow> rat list" where
  "make_grid_coordinate n d =
     (let ix = (if mod2 n = 1
                then arange1 (- (floordiv2 n)) (floordiv2 n + 1)
                else arange1 (- (n - 1) / 2) (floordiv2 (n + 1)))
      in map (\<lambda>i. i * d) ix)"

text \<open>
  \<open>coords = {...},\<close> ends in a comma, so \<open>coords\<close> is a tuple of length one holding
  the dictionary.
\<close>

datatype 'a tuple1 = Tuple1 'a

datatype error =
    ValueError string
  | AttributeError string
  | KeyError string
  | IndexError
  | PyprojError

text \<open>Sequencing of computations that may raise.\<close>

definition bindE :: "error + 'a \<Rightarrow> ('a \<Rightarrow> error + 'b) \<Rightarrow> error + 'b" where
  "bindE m f = (case m of Inl e \<Rightarrow> Inl e | Inr a \<Rightarrow> f a)"

text \<open>\<open>d[k]\<close> on a dictionary.\<close>

definition dict_getitem :: "(string \<rightharpoonup> 'a) \<Rightarrow> string \<Rightarrow> error + 'a" where
  "dict_getitem d k = (case d k of None \<Rightarrow> Inl (KeyError k) | Some v \<Rightarrow> Inr v)"

text \<open>Indexing a tuple of length one: \<open>t[0]\<close> and \<open>t[-1]\<close> are its element.\<close>

fun tuple1_getitem :: "'a tuple1 \<Rightarrow> int \<Rightarrow> error + 'a" where
  "tuple1_getitem (Tuple1 a) i = (if i = 0 \<or> i = - 1 then Inr a else Inl IndexError)"

type_synonym coords = "string \<rightharpoonup> rat list"
type_synonym grids = "string \<rightharpoonup> ndarray \<times> ndarray"

definition reconstruct_grid :: "grid_params \<Rightarrow> coords tuple1 \<times> grids" where
  "reconstruct_grid grid_params =
     (let x = make_grid_coordinate (nx grid_params) (dx grid_params);
          y = make_grid_coordinate (ny grid_params) (dy grid_params);
          x_stag = make_grid_coordinate (nx grid_params + 1) (dx grid_params);
          y_stag = make_grid_coordinate (nx grid_params + 1) (dx grid_params);
          mass_grid = meshgrid x y;
          u_grid = meshgrid x_stag y;
          v_grid = meshgrid x y_stag;
          coords = Tuple1 [''x'' \<mapsto> x, ''y'' \<mapsto> y, ''x_stag'' \<mapsto> x_stag, ''y_stag'' \<mapsto> y_stag];
          grids = [''mass_grid'' \<mapsto> mass_grid, ''u_grid'' \<mapsto> u_grid, ''v_grid'' \<mapsto> v_grid]
      in (coords, grids))"

text \<open>
  How a caller reads the result \<open>r\<close>: \<open>r[0][0][name]\<close> is an axis, and
  \<open>(r[1][name][0].shape, r[1][name][1].shape)\<close> are the shapes of a pair of meshgrid
  arrays.
\<close>

definition coords_axis :: "coords tuple1 \<times> grids \<Rightarrow> string \<Rightarrow> error + rat list" where
  "coords_axis r name = bindE (tuple1_getitem (fst r) 0) (\<lambda>c. dict_getitem c name)"

definition grid_shape ::
  "coords tuple1 \<times> grids \<Rightarrow> string \<Rightarrow> error + (nat \<times> nat) \<times> (nat \<times> nat)" where
  "grid_shape r name = bindE (dict_getitem (snd r) name) (\<lambda>(X, Y). Inr (shape X, shape Y))"

subsection \<open>Errors, printing, external libraries\<close>

text \<open>
  What a \<open>print\<close> statement writes, item by item. Python 2 evaluates and writes the items
  of a \<open>print\<close> statement one after the other, so an item that raises leaves the items
  before it on the output. How a number is rendered as text is not modelled.
\<close>

datatype item = Str string | Num rat | NaN | Index "nat \<times> nat" | Newline

text \<open>A computation that prints: the items written, and the exception raised or the value.\<close>

type_synonym 'a io = "item list \<times> (error + 'a)"

definition io_bind :: "'a io \<Rightarrow> ('a \<Rightarrow> 'b io) \<Rightarrow> 'b io" where
  "io_bind m f =
     (case m of
        (out, Inl e) \<Rightarrow> (out, Inl e)
      | (out, Inr a) \<Rightarrow> (case f a of (out', r) \<Rightarrow> (out @ out', r)))"

definition put :: "item list \<Rightarrow> unit io" where
  "put items = (items, Inr ())"

definition lift :: "error + 'a \<Rightarrow> 'a io" where
  "lift r = ([], r)"

text \<open>
  The libraries the script calls but does not define: the \<open>%f\<close> conversion of Python's
  string formatting, \<open>pyproj.Proj\<close> (a projection object from a definition string) and
  \<open>pyproj.transform\<close>. The two \<open>pyproj\<close> functions may raise: \<open>None\<close>.
\<close>

record 'p lib =
  format_f :: "rat \<Rightarrow> string"
  Proj :: "string \<Rightarrow> 'p option"
  transform :: "'p \<Rightarrow> 'p \<Rightarrow> ndarray \<Rightarrow> ndarray \<Rightarrow> (ndarray \<times> ndarray) option"

definition pyproj_Proj :: "'p lib \<Rightarrow> string \<Rightarrow> error + 'p" where
  "pyproj_Proj l s = (case Proj l s of None \<Rightarrow> Inl PyprojError | Some p \<Rightarrow> Inr p)"

definition pyproj_transform ::
  "'p lib \<Rightarrow> 'p \<Rightarrow> 'p \<Rightarrow> ndarray \<Rightarrow> ndarray \<Rightarrow> error + ndarray \<times> ndarray" where
  "pyproj_transform l p1 p2 x y =
     (case transform l p1 p2 x y of None \<Rightarrow> Inl PyprojError | Some r \<Rightarrow> Inr r)"

text \<open>
  A concrete \<open>%f\<close>: sign, integer part, a point and six decimals, rounded half to even.
  It is what Python prints for a double of magnitude below \<open>1e50\<close>.
\<close>

fun dec_digits :: "nat \<Rightarrow> string" where
  "dec_digits n =
     (if n < 10 then [''0123456789'' ! n]
      else dec_digits (n div 10) @ [''0123456789'' ! (n mod 10)])"

definition round_half_even :: "rat \<Rightarrow> nat" where
  "round_half_even q =
     (let f = \<lfloor>q\<rfloor>; r = q - of_int f
      in nat (if r < 1 / 2 then f else if 1 / 2 < r then f + 1
              else if even f then f else f + 1))"

definition percent_f :: "rat \<Rightarrow> string" where
  "percent_f v =
     (let n = round_half_even (\<bar>v\<bar> * 1000000);
          frac = dec_digits (n mod 1000000)
      in (if v < 0 then ''-'' else [])
         @ dec_digits (n div 1000000) @ ''.''
         @ replicate (6 - length frac) (CHR ''0'') @ frac)"

subsection \<open>The dataset\<close>

text \<open>
  The \<open>xarray\<close> dataset: its numeric global attributes, and its variables, each a list of
  two-dimensional arrays indexed by \<open>Time\<close>. \<open>wrfout.NAME\<close> raises \<open>AttributeError\<close>
  and \<open>wrfout.attrs[NAME]\<close> raises \<open>KeyError\<close> when the name is absent.
\<close>

record wrfout =
  attrs :: "string \<rightharpoonup> rat"
  variables :: "string \<rightharpoonup> ndarray list"

definition getattr_num :: "wrfout \<Rightarrow> string \<Rightarrow> error + rat" where
  "getattr_num w name =
     (case attrs w name of None \<Rightarrow> Inl (AttributeError name) | Some v \<Rightarrow> Inr v)"

definition attrs_getitem :: "wrfout \<Rightarrow> string \<Rightarrow> error + rat" where
  "attrs_getitem w name =
     (case attrs w name of None \<Rightarrow> Inl (KeyError name) | Some v \<Rightarrow> Inr v)"

definition getattr_var :: "wrfout \<Rightarrow> string \<Rightarrow> error + ndarray list" where
  "getattr_var w name =
     (case variables w name of None \<Rightarrow> Inl (AttributeError name) | Some v \<Rightarrow> Inr v)"

text \<open>\<open>.isel(Time=0).values\<close>: the first time slice; \<open>IndexError\<close> when there is none.\<close>

definition isel_Time0 :: "ndarray list \<Rightarrow> error + ndarray" where
  "isel_Time0 v = (case v of [] \<Rightarrow> Inl IndexError | a # _ \<Rightarrow> Inr a)"

subsection \<open>get\_wrf\_proj, get\_wrf\_grid\_params, load\_wrf\_grids\<close>

definition get_wrf_proj :: "'p lib \<Rightarrow> wrfout \<Rightarrow> error + 'p" where
  "get_wrf_proj l w =
     bindE (getattr_num w ''MAP_PROJ'') (\<lambda>map_proj.
       if map_proj = 1 then
         bindE (getattr_num w ''CEN_LON'') (\<lambda>clon.
         bindE (getattr_num w ''CEN_LAT'') (\<lambda>clat.
         bindE (getattr_num w ''TRUELAT1'') (\<lambda>lat1.
         bindE (getattr_num w ''TRUELAT2'') (\<lambda>lat2.
           let proj_string =
                 ''+proj=lcc '' @
                 ''+lat_1='' @ format_f l lat1 @ '' '' @
                 ''+lat_2='' @ format_f l lat2 @ '' '' @
                 ''+lat_0='' @ format_f l clat @ '' '' @
                 ''+lon_0='' @ format_f l clon @ '' '' @
                 ''+a=6370000''
           in pyproj_Proj l proj_string))))
       else Inl (ValueError ''This WRF output is not on a Lambert grid''))"

definition get_wrf_grid_params :: "wrfout \<Rightarrow> error + grid_params" where
  "get_wrf_grid_params w =
     bindE (getattr_num w ''DX'') (\<lambda>vdx.
     bindE (getattr_num w ''DY'') (\<lambda>vdy.
     bindE (attrs_getitem w ''WEST-EAST_PATCH_END_UNSTAG'') (\<lambda>vnx.
     bindE (attrs_getitem w ''SOUTH-NORTH_PATCH_END_UNSTAG'') (\<lambda>vny.
       Inr \<lparr>dx = vdx, dy = vdy, nx = vnx, ny = vny\<rparr>))))"

definition load_wrf_grids :: "wrfout \<Rightarrow> error + grids" where
  "load_wrf_grids w =
     bindE (bindE (getattr_var w ''XLONG'') isel_Time0) (\<lambda>x.
     bindE (bindE (getattr_var w ''XLAT'') isel_Time0) (\<lambda>y.
     bindE (bindE (getattr_var w ''XLONG_U'') isel_Time0) (\<lambda>x_u_stag.
     bindE (bindE (getattr_var w ''XLAT_U'') isel_Time0) (\<lambda>y_u_stag.
     bindE (bindE (getattr_var w ''XLONG_V'') isel_Time0) (\<lambda>x_v_stag.
     bindE (bindE (getattr_var w ''XLAT_V'') isel_Time0) (\<lambda>y_v_stag.
       Inr [''mass_grid'' \<mapsto> (x, y), ''u_grid'' \<mapsto> (x_u_stag, y_u_stag),
            ''v_grid'' \<mapsto> (x_v_stag, y_v_stag)]))))))"

subsection \<open>check\_grid\_consistency\<close>

text \<open>
  NumPy broadcasting of two shapes: along each axis the lengths are equal or one of them
  is 1.
\<close>

definition broadcast_shape :: "nat \<times> nat \<Rightarrow> nat \<times> nat \<Rightarrow> (nat \<times> nat) option" where
  "broadcast_shape s t =
     (case (s, t) of ((r1, c1), (r2, c2)) \<Rightarrow>
        if (r1 = r2 \<or> r1 = 1 \<or> r2 = 1) \<and> (c1 = c2 \<or> c1 = 1 \<or> c2 = 1)
        then Some (if r1 = 1 then r2 else r1, if c1 = 1 then c2 else c1)
        else None)"

text \<open>Element \<open>(i, j)\<close> of an array seen through broadcasting; the array is well formed.\<close>

definition elem_at :: "ndarray \<Rightarrow> nat \<Rightarrow> nat \<Rightarrow> rat" where
  "elem_at a i j =
     elems a ! ((if fst (shape a) = 1 then 0 else i) * snd (shape a)
                + (if snd (shape a) = 1 then 0 else j))"

text \<open>\<open>a - b\<close> on arrays.\<close>

definition ndarray_sub :: "ndarray \<Rightarrow> ndarray \<Rightarrow> error + ndarray" where
  "ndarray_sub a b =
     (case broadcast_shape (shape a) (shape b) of
        None \<Rightarrow> Inl (ValueError ''operands could not be broadcast together'')
      | Some (r, c) \<Rightarrow>
          Inr \<lparr>shape = (r, c),
               elems = concat (map (\<lambda>i. map (\<lambda>j. elem_at a i j - elem_at b i j) [0..<c]) [0..<r])\<rparr>)"

text \<open>\<open>a.sum()\<close>; \<open>a.mean()\<close>, which is \<open>nan\<close> for an empty array.\<close>

definition ndarray_sum :: "ndarray \<Rightarrow> rat" where
  "ndarray_sum a = sum_list (elems a)"

definition ndarray_mean :: "ndarray \<Rightarrow> item" where
  "ndarray_mean a =
     (if elems a = [] then NaN else Num (sum_list (elems a) / of_nat (length (elems a))))"

text \<open>\<open>a.max()\<close> and \<open>a.argmax()\<close>; both raise \<open>ValueError\<close> on an empty array.\<close>

definition ndarray_max :: "ndarray \<Rightarrow> error + rat" where
  "ndarray_max a =
     (case elems a of
        [] \<Rightarrow> Inl (ValueError ''zero-size array to reduction operation maximum which has no identity'')
      | v # vs \<Rightarrow> Inr (fold max vs v))"

fun first_index :: "rat \<Rightarrow> rat list \<Rightarrow> nat" where
  "first_index m [] = 0"
| "first_index m (v # vs) = (if v = m then 0 else Suc (first_index m vs))"

definition ndarray_argmax :: "ndarray \<Rightarrow> error + nat" where
  "ndarray_argmax a =
     (case elems a of
        [] \<Rightarrow> Inl (ValueError ''attempt to get argmax of an empty sequence'')
      | v # vs \<Rightarrow> Inr (first_index (fold max vs v) (v # vs)))"

text \<open>\<open>np.unravel_index(k, shape)\<close> for a two-dimensional shape.\<close>

definition unravel_index :: "nat \<Rightarrow> nat \<times> nat \<Rightarrow> error + nat \<times> nat" where
  "unravel_index k s =
     (case s of (r, c) \<Rightarrow>
        if k < r * c then Inr (k div c, k mod c)
        else Inl (ValueError ''index is out of bounds for array with given shape''))"

text \<open>The inner function \<open>print_diffs(xt, yt, x2, y2)\<close>, one \<open>print\<close> statement a line.\<close>

definition print_diffs :: "ndarray \<Rightarrow> ndarray \<Rightarrow> ndarray \<Rightarrow> ndarray \<Rightarrow> unit io" where
  "print_diffs xt yt x2 y2 =
     io_bind (put [Str ''Total accumulated longitude mismatch:'']) (\<lambda>_.
     io_bind (lift (ndarray_sub xt x2)) (\<lambda>d.
     io_bind (put [Num (ndarray_sum d), Newline]) (\<lambda>_.
     io_bind (put [Str ''Total accumulated latitude mismatch:'']) (\<lambda>_.
     io_bind (lift (ndarray_sub yt y2)) (\<lambda>d.
     io_bind (put [Num (ndarray_sum d), Newline]) (\<lambda>_.
     io_bind (put [Str ''Average longitudinal grid mismatch:'']) (\<lambda>_.
     io_bind (lift (ndarray_sub xt x2)) (\<lambda>d.
     io_bind (put [ndarray_mean d, Newline]) (\<lambda>_.
     io_bind (put [Str ''Average latitudinal mismatch:'']) (\<lambda>_.
     io_bind (lift (ndarray_sub yt y2)) (\<lambda>d.
     io_bind (put [ndarray_mean d, Newline]) (\<lambda>_.
     io_bind (put [Str ''Maximum longitudinal grid mismatch:'']) (\<lambda>_.
     io_bind (lift (bindE (ndarray_sub xt x2) ndarray_max)) (\<lambda>m.
     io_bind (put [Num m]) (\<lambda>_.
     io_bind (lift (bindE (bindE (ndarray_sub xt x2) ndarray_argmax)
                      (\<lambda>k. unravel_index k (shape xt)))) (\<lambda>ij.
     io_bind (put [Index ij, Newline]) (\<lambda>_.
     io_bind (put [Str ''Maximum latitudinal mismatch:'']) (\<lambda>_.
     io_bind (lift (bindE (ndarray_sub yt y2) ndarray_max)) (\<lambda>m.
     io_bind (put [Num m]) (\<lambda>_.
     io_bind (lift (bindE (bindE (ndarray_sub yt y2) ndarray_argmax)
                      (\<lambda>k. unravel_index k (shape yt)))) (\<lambda>ij.
     put [Index ij, Str [CHR 0x0A], Newline])))))))))))))))))))))"

text \<open>The body of the \<open>for grid in [...]\<close> loop, and the loop.\<close>

definition check_body ::
  "'p lib \<Rightarrow> grids \<Rightarrow> grids \<Rightarrow> 'p \<Rightarrow> 'p \<Rightarrow> string \<Rightarrow> unit io" where
  "check_body l grid1 grid2 proj1 proj2 grid =
     io_bind (put [Str (''Performing transformation on the '' @ grid), Newline]) (\<lambda>_.
     io_bind (lift (dict_getitem grid1 ''mass_grid'')) (\<lambda>(x1, y1).
     io_bind (lift (dict_getitem grid2 ''mass_grid'')) (\<lambda>(x2, y2).
     io_bind (put [Str ''Transform proj1 to proj2 (probably LCC to lat/lon)'', Newline]) (\<lambda>_.
     io_bind (lift (pyproj_transform l proj1 proj2 x1 y1)) (\<lambda>(xt, yt).
     io_bind (print_diffs xt yt x2 y2) (\<lambda>_.
     io_bind (put [Str ''Transform proj2 to proj1 (probably lat/lon to LCC)'', Newline]) (\<lambda>_.
     io_bind (lift (pyproj_transform l proj2 proj1 x2 y2)) (\<lambda>(xt, yt).
     print_diffs xt yt x1 y1))))))))"

fun for_each :: "('a \<Rightarrow> unit io) \<Rightarrow> 'a list \<Rightarrow> unit io" where
  "for_each body [] = ([], Inr ())"
| "for_each body (g # gs) = io_bind (body g) (\<lambda>_. for_each body gs)"

definition check_grid_consistency ::
  "'p lib \<Rightarrow> grids \<Rightarrow> grids \<Rightarrow> 'p \<Rightarrow> 'p \<Rightarrow> unit io" where
  "check_grid_consistency l grid1 grid2 proj1 proj2 =
     for_each (check_body l grid1 grid2 proj1 proj2) [''mass_grid'', ''u_grid'', ''v_grid'']"

subsection \<open>reproduce\_wrf\_grid\<close>

definition reproduce_wrf_grid :: "'p lib \<Rightarrow> wrfout \<Rightarrow> (coords tuple1 \<times> grids) io" where
  "reproduce_wrf_grid l w =
     io_bind (lift (get_wrf_proj l w)) (\<lambda>proj_wrf_lcc.
     io_bind (lift (pyproj_Proj l ''+init=EPSG:4326'')) (\<lambda>proj_wgs84.
     io_bind (lift (pyproj_Proj l
                ''+proj=latlong +a=6370 +b=6370 +towgs84=0,0,0 +no_defs'')) (\<lambda>proj_sll.
     io_bind (lift (get_wrf_grid_params w)) (\<lambda>grid_params_wrf.
       case reconstruct_grid grid_params_wrf of (coords_peter, grids_peter) \<Rightarrow>
     io_bind (lift (load_wrf_grids w)) (\<lambda>grids_wrfout.
     io_bind (check_grid_consistency l grids_peter grids_wrfout proj_wrf_lcc proj_wgs84) (\<lambda>_.
       ([], Inr (coords_peter, grids_peter))))))))"

subsection \<open>A small dataset\<close>

text \<open>
  A dataset of two by one mass points, on a Lambert grid, and stand-ins for the
  libraries: a projection object is its definition string, and a transformation leaves
  the coordinates as they are.
\<close>

definition example_lib :: "string lib" where
  "example_lib = \<lparr>format_f = percent_f, Proj = Some, transform = (\<lambda>p q x y. Some (x, y))\<rparr>"

definition example_array :: ndarray where
  "example_array = \<lparr>shape = (1, 2), elems = [3, 5]\<rparr>"

definition example_wrfout :: wrfout where
  "example_wrfout =
     \<lparr>attrs = [''MAP_PROJ'' \<mapsto> 1, ''CEN_LON'' \<mapsto> 10, ''CEN_LAT'' \<mapsto> 52,
               ''TRUELAT1'' \<mapsto> 30, ''TRUELAT2'' \<mapsto> 60, ''DX'' \<mapsto> 1000, ''DY'' \<mapsto> 2000,
               ''WEST-EAST_PATCH_END_UNSTAG'' \<mapsto> 2, ''SOUTH-NORTH_PATCH_END_UNSTAG'' \<mapsto> 1],
      variables = [''XLONG'' \<mapsto> [example_array], ''XLAT'' \<mapsto> [example_array],
               ''XLONG_U'' \<mapsto> [example_array], ''XLAT_U'' \<mapsto> [example_array],
               ''XLONG_V'' \<mapsto> [example_array], ''XLAT_V'' \<mapsto> [example_array]]\<rparr>"

definition example_other_array :: ndarray where
  "example_other_array = \<lparr>shape = (1, 2), elems = [100, - 7]\<rparr>"

text \<open>
  Other stand-ins: the spherical latitude/longitude projection is the object
  \<open>sphere\<close>, and no transformation from or to it succeeds.
\<close>

definition example_lib_sphere :: "string lib" where
  "example_lib_sphere =
     example_lib\<lparr>
       Proj := (Proj example_lib)
         (''+proj=latlong +a=6370 +b=6370 +towgs84=0,0,0 +no_defs'' \<mapsto> ''sphere''),
       transform := (\<lambda>p q x y. if p = ''sphere'' \<or> q = ''sphere'' then None else Some (x, y))\<rparr>"


section \<open>Properties\<close>

subsection \<open>The coordinate axis in closed form\<close>

lemma mod2_of_int: "mod2 (of_int k) = of_int (k mod 2)"
  unfolding mod2_def
  by (metis floor_divide_of_int_eq minus_mult_div_eq_mod of_int_diff of_int_mult of_int_numeral)

lemma floordiv2_of_int: "floordiv2 (of_int k) = of_int (k div 2)"
  unfolding floordiv2_def
  by (metis floor_divide_of_int_eq of_int_numeral)

lemma make_grid_coordinate_closed:
  "make_grid_coordinate (of_int k) d =
     map (\<lambda>i. (of_nat i - (of_int k - 1) / 2) * d) [0..<nat k]"
proof (cases "k mod 2 = 1")
  case True
  then obtain m where k: "k = 2 * m + 1"
    by (metis mult_div_mod_eq)
  have "k div 2 = m" by (simp add: k)
  then have fd: "floordiv2 (of_int k) = of_int m"
    by (simp add: floordiv2_of_int)
  have md: "mod2 (of_int k) = 1"
    using True by (simp add: mod2_of_int)
  have len: "nat \<lceil>(of_int m + 1 :: rat) - (- of_int m)\<rceil> = nat k"
  proof -
    have "(of_int m + 1 :: rat) - (- of_int m) = of_int k" by (simp add: k)
    then show ?thesis by simp
  qed
  have st: "(of_int k - 1) / 2 = (of_int m :: rat)" by (simp add: k)
  show ?thesis
    unfolding make_grid_coordinate_def Let_def md fd arange1_def len st
    by (simp add: algebra_simps)
next
  case False
  then have ev: "k mod 2 = 0" by presburger
  then obtain m where k: "k = 2 * m"
    by (metis mult_div_mod_eq add.right_neutral)
  have md: "mod2 (of_int k) \<noteq> 1"
    using ev by (simp add: mod2_of_int)
  have "(k + 1) div 2 = m" by (simp add: k)
  then have "floordiv2 (of_int (k + 1)) = of_int m"
    by (simp only: floordiv2_of_int)
  then have fd: "floordiv2 (of_int k + 1) = of_int m"
    by simp
  have len: "nat \<lceil>(of_int m :: rat) - (- (of_int k - 1) / 2)\<rceil> = nat k"
  proof -
    have "(of_int m :: rat) - (- (of_int k - 1) / 2) = of_int k - 1 / 2"
      by (simp add: k field_simps)
    moreover have "\<lceil>(of_int k :: rat) - 1 / 2\<rceil> = k"
      by (simp add: ceiling_eq_iff)
    ultimately show ?thesis by simp
  qed
  show ?thesis
    unfolding make_grid_coordinate_def Let_def fd arange1_def len
    using md by (simp add: field_simps)
qed


lemma length_make_grid_coordinate:
  "length (make_grid_coordinate (of_int k) d) = nat k"
  by (simp add: make_grid_coordinate_closed)







subsection \<open>What reconstruct\_grid returns\<close>

lemma wf_meshgrid:
  "wf_ndarray (fst (meshgrid x y))" and "wf_ndarray (snd (meshgrid x y))"
  by (simp_all add: wf_ndarray_def meshgrid_def length_concat comp_def sum_list_triv
      sum_list_replicate)

lemma reconstruct_grid_coords:
  "fst (reconstruct_grid gp) =
     Tuple1 [''x'' \<mapsto> make_grid_coordinate (nx gp) (dx gp),
             ''y'' \<mapsto> make_grid_coordinate (ny gp) (dy gp),
             ''x_stag'' \<mapsto> make_grid_coordinate (nx gp + 1) (dx gp),
             ''y_stag'' \<mapsto> make_grid_coordinate (nx gp + 1) (dx gp)]"
  by (simp add: reconstruct_grid_def Let_def)

lemma reconstruct_grid_grids:
  "snd (reconstruct_grid gp) =
     [''mass_grid'' \<mapsto> meshgrid (make_grid_coordinate (nx gp) (dx gp))
                              (make_grid_coordinate (ny gp) (dy gp)),
      ''u_grid'' \<mapsto> meshgrid (make_grid_coordinate (nx gp + 1) (dx gp))
                              (make_grid_coordinate (ny gp) (dy gp)),
      ''v_grid'' \<mapsto> meshgrid (make_grid_coordinate (nx gp) (dx gp))
                              (make_grid_coordinate (nx gp + 1) (dx gp))]"
  by (simp add: reconstruct_grid_def Let_def)

lemma coords_axis_y_stag:
  "coords_axis (reconstruct_grid gp) ''y_stag'' = Inr (make_grid_coordinate (nx gp + 1) (dx gp))"
  by (simp add: coords_axis_def reconstruct_grid_coords bindE_def dict_getitem_def)

lemma coords_axis_x_stag:
  "coords_axis (reconstruct_grid gp) ''x_stag'' = Inr (make_grid_coordinate (nx gp + 1) (dx gp))"
  by (simp add: coords_axis_def reconstruct_grid_coords bindE_def dict_getitem_def)

lemma grid_shape_v_grid:
  "grid_shape (reconstruct_grid gp) ''v_grid'' =
     Inr ((length (make_grid_coordinate (nx gp + 1) (dx gp)),
           length (make_grid_coordinate (nx gp) (dx gp))),
          (length (make_grid_coordinate (nx gp + 1) (dx gp)),
           length (make_grid_coordinate (nx gp) (dx gp))))"
  by (simp add: grid_shape_def reconstruct_grid_grids bindE_def dict_getitem_def meshgrid_def)

lemma reconstruct_grid_shapes:
  assumes "nx gp = of_int kx" and "ny gp = of_int ky"
  shows "grid_shape (reconstruct_grid gp) ''mass_grid''
           = Inr ((nat ky, nat kx), (nat ky, nat kx))"
    and "grid_shape (reconstruct_grid gp) ''u_grid''
           = Inr ((nat ky, nat (kx + 1)), (nat ky, nat (kx + 1)))"
    and "grid_shape (reconstruct_grid gp) ''v_grid''
           = Inr ((nat (kx + 1), nat kx), (nat (kx + 1), nat kx))"
proof -
  have s: "nx gp + 1 = of_int (kx + 1)"
    using assms by simp
  have lx: "length (make_grid_coordinate (nx gp) d) = nat kx" for d
    by (simp only: assms length_make_grid_coordinate)
  have ly: "length (make_grid_coordinate (ny gp) d) = nat ky" for d
    by (simp only: assms length_make_grid_coordinate)
  have ls: "length (make_grid_coordinate (nx gp + 1) d) = nat (kx + 1)" for d
    by (simp only: s length_make_grid_coordinate)
  show "grid_shape (reconstruct_grid gp) ''mass_grid''
           = Inr ((nat ky, nat kx), (nat ky, nat kx))"
    by (simp add: grid_shape_def reconstruct_grid_grids bindE_def dict_getitem_def meshgrid_def
        lx ly)
  show "grid_shape (reconstruct_grid gp) ''u_grid''
           = Inr ((nat ky, nat (kx + 1)), (nat ky, nat (kx + 1)))"
    by (simp add: grid_shape_def reconstruct_grid_grids bindE_def dict_getitem_def meshgrid_def
        ly ls)
  show "grid_shape (reconstruct_grid gp) ''v_grid''
           = Inr ((nat (kx + 1), nat kx), (nat (kx + 1), nat kx))"
    by (simp add: grid_shape_def reconstruct_grid_grids bindE_def dict_getitem_def meshgrid_def
        lx ls)
qed

subsection \<open>Raising and printing\<close>

lemma snd_io_bind: "snd (io_bind m f) = bindE (snd m) (\<lambda>a. snd (f a))"
  by (cases m) (auto simp: io_bind_def bindE_def split: sum.splits prod.splits)

lemma snd_put [simp]: "snd (put items) = Inr ()"
  by (simp add: put_def)

lemma snd_lift [simp]: "snd (lift r) = r"
  by (simp add: lift_def)

lemma bindE_Inr [simp]: "bindE (Inr a) f = f a"
  by (simp add: bindE_def)

lemma bindE_Inl [simp]: "bindE (Inl e) f = Inl e"
  by (simp add: bindE_def)

lemma broadcast_shape_same: "broadcast_shape s s = Some s"
  by (cases s) (simp add: broadcast_shape_def)

lemma ndarray_sub_same_shape:
  assumes "shape a = s" and "shape b = s"
  shows "\<exists>d. ndarray_sub a b = Inr d \<and> shape d = s \<and> length (elems d) = fst s * snd s"
proof -
  obtain r c where s: "s = (r, c)" by (cases s)
  have "length (concat (map (\<lambda>i. map (\<lambda>j. elem_at a i j - elem_at b i j) [0..<c]) [0..<r]))
        = r * c"
    by (simp add: length_concat comp_def sum_list_triv)
  then show ?thesis
    using assms by (simp add: ndarray_sub_def broadcast_shape_same s)
qed

lemma fold_max_in_set: "fold max vs v \<in> set (v # vs)"
proof (induction vs arbitrary: v)
  case Nil
  show ?case by simp
next
  case (Cons a vs)
  have "fold max vs (max a v) \<in> set (max a v # vs)" by (rule Cons.IH)
  moreover have "max a v = v \<or> max a v = a" by (simp add: max_def)
  ultimately show ?case by auto
qed

lemma first_index_less: "m \<in> set vs \<Longrightarrow> first_index m vs < length vs"
  by (induction vs) auto

lemma ndarray_max_nonempty:
  "elems d \<noteq> [] \<Longrightarrow> \<exists>m. ndarray_max d = Inr m"
  by (cases "elems d") (simp_all add: ndarray_max_def)

lemma ndarray_argmax_nonempty:
  assumes "elems d \<noteq> []"
  shows "\<exists>k. ndarray_argmax d = Inr k \<and> k < length (elems d)"
proof (cases "elems d")
  case Nil
  with assms show ?thesis by simp
next
  case (Cons v vs)
  have "first_index (fold max vs v) (v # vs) < length (v # vs)"
    by (rule first_index_less [OF fold_max_in_set])
  with Cons show ?thesis by (simp add: ndarray_argmax_def)
qed

lemma unravel_index_in_range:
  "k < fst s * snd s \<Longrightarrow> \<exists>ij. unravel_index k s = Inr ij"
  by (cases s) (simp add: unravel_index_def)

lemma print_diffs_returns:
  assumes "shape xt = s" and "shape yt = s" and "shape x2 = s" and "shape y2 = s"
    and "0 < fst s * snd s"
  shows "snd (print_diffs xt yt x2 y2) = Inr ()"
proof -
  obtain dx where dx: "ndarray_sub xt x2 = Inr dx" "shape dx = s"
      "length (elems dx) = fst s * snd s"
    using ndarray_sub_same_shape [OF assms(1) assms(3)] by blast
  obtain dy where dy: "ndarray_sub yt y2 = Inr dy" "shape dy = s"
      "length (elems dy) = fst s * snd s"
    using ndarray_sub_same_shape [OF assms(2) assms(4)] by blast
  have nx: "elems dx \<noteq> []" and ny: "elems dy \<noteq> []"
    using dx(3) dy(3) assms(5) by auto
  obtain mx where mx: "ndarray_max dx = Inr mx"
    using ndarray_max_nonempty [OF nx] by blast
  obtain my where my: "ndarray_max dy = Inr my"
    using ndarray_max_nonempty [OF ny] by blast
  obtain kx where kx: "ndarray_argmax dx = Inr kx" "kx < length (elems dx)"
    using ndarray_argmax_nonempty [OF nx] by blast
  obtain ky where ky: "ndarray_argmax dy = Inr ky" "ky < length (elems dy)"
    using ndarray_argmax_nonempty [OF ny] by blast
  obtain ix where ix: "unravel_index kx s = Inr ix"
    using unravel_index_in_range [of kx s] kx(2) dx(3) by auto
  obtain iy where iy: "unravel_index ky s = Inr iy"
    using unravel_index_in_range [of ky s] ky(2) dy(3) by auto
  show ?thesis
    by (simp add: print_diffs_def snd_io_bind dx(1) dy(1) mx my kx(1) ky(1) ix iy assms(1,2))
qed

subsection \<open>The projection\<close>

lemma get_wrf_proj_other_code:
  assumes "attrs w ''MAP_PROJ'' = Some code" and "code \<noteq> 1"
  shows "get_wrf_proj l w = Inl (ValueError ''This WRF output is not on a Lambert grid'')"
  using assms by (simp add: get_wrf_proj_def getattr_num_def bindE_def)

lemma get_wrf_proj_no_code:
  assumes "attrs w ''MAP_PROJ'' = None"
  shows "get_wrf_proj l w = Inl (AttributeError ''MAP_PROJ'')"
  using assms by (simp add: get_wrf_proj_def getattr_num_def bindE_def)

lemma get_wrf_proj_lcc_not_unsupported:
  assumes "attrs w ''MAP_PROJ'' = Some 1"
  shows "get_wrf_proj l w \<noteq> Inl (ValueError ''This WRF output is not on a Lambert grid'')"
  using assms
  by (simp add: get_wrf_proj_def getattr_num_def bindE_def pyproj_Proj_def Let_def
      split: option.split)

lemma get_wrf_proj_lcc:
  assumes "attrs w ''MAP_PROJ'' = Some 1"
    and "attrs w ''CEN_LON'' = Some clon" and "attrs w ''CEN_LAT'' = Some clat"
    and "attrs w ''TRUELAT1'' = Some lat1" and "attrs w ''TRUELAT2'' = Some lat2"
  shows "get_wrf_proj l w =
     pyproj_Proj l (''+proj=lcc +lat_1='' @ format_f l lat1 @ '' +lat_2='' @ format_f l lat2
        @ '' +lat_0='' @ format_f l clat @ '' +lon_0='' @ format_f l clon @ '' +a=6370000'')"
  using assms by (simp add: get_wrf_proj_def getattr_num_def bindE_def Let_def)

subsection \<open>Evaluating the \<open>%f\<close> conversion\<close>

lemma dec_digits_lt10: "n < 10 \<Longrightarrow> dec_digits n = [''0123456789'' ! n]"
  by (subst dec_digits.simps) simp

lemma dec_digits_ge10:
  "10 \<le> n \<Longrightarrow> dec_digits n = dec_digits (n div 10) @ [''0123456789'' ! (n mod 10)]"
  by (subst dec_digits.simps) simp

lemma replicate_numeral_Cons: "replicate (numeral k) x = x # replicate (pred_numeral k) x"
  by (simp add: numeral_eq_Suc)

lemmas percent_f_eval =
  percent_f_def round_half_even_def Let_def dec_digits_lt10 dec_digits_ge10
  replicate_numeral_Cons

subsection \<open>The loop body of check\_grid\_consistency\<close>

lemma io_bind_lift_Inr [simp]: "io_bind (lift (Inr a)) f = f a"
  by (simp add: io_bind_def lift_def split: prod.split)

lemma io_bind_lift_Inl [simp]: "io_bind (lift (Inl e)) f = ([], Inl e)"
  by (simp add: io_bind_def lift_def)

lemma check_body_mass_grid:
  assumes "grid1 ''mass_grid'' = Some (x1, y1)" and "grid2 ''mass_grid'' = Some (x2, y2)"
  shows "check_body l grid1 grid2 proj1 proj2 grid =
     io_bind (put [Str (''Performing transformation on the '' @ grid), Newline]) (\<lambda>_.
     io_bind (put [Str ''Transform proj1 to proj2 (probably LCC to lat/lon)'', Newline]) (\<lambda>_.
     io_bind (lift (pyproj_transform l proj1 proj2 x1 y1)) (\<lambda>(xt, yt).
     io_bind (print_diffs xt yt x2 y2) (\<lambda>_.
     io_bind (put [Str ''Transform proj2 to proj1 (probably lat/lon to LCC)'', Newline]) (\<lambda>_.
     io_bind (lift (pyproj_transform l proj2 proj1 x2 y2)) (\<lambda>(xt, yt).
     print_diffs xt yt x1 y1))))))"
  using assms by (simp add: check_body_def dict_getitem_def)


subsection \<open>The pipeline\<close>

lemma snd_for_each_returns:
  "(\<And>g. g \<in> set gs \<Longrightarrow> snd (body g) = Inr ()) \<Longrightarrow> snd (for_each body gs) = Inr ()"
  by (induction gs) (simp_all add: snd_io_bind)

lemma check_body_returns:
  assumes "grid1 ''mass_grid'' = Some (x1, y1)" and "grid2 ''mass_grid'' = Some (x2, y2)"
    and "shape x1 = s" and "shape y1 = s" and "shape x2 = s" and "shape y2 = s"
    and "0 < fst s * snd s"
    and "transform l proj1 proj2 x1 y1 = Some (xt, yt)" and "shape xt = s" and "shape yt = s"
    and "transform l proj2 proj1 x2 y2 = Some (xt', yt')" and "shape xt' = s" and "shape yt' = s"
  shows "snd (check_body l grid1 grid2 proj1 proj2 grid) = Inr ()"
proof -
  have 1: "snd (print_diffs xt yt x2 y2) = Inr ()"
    using assms(9) assms(10) assms(5) assms(6) assms(7) by (rule print_diffs_returns)
  have 2: "snd (print_diffs xt' yt' x1 y1) = Inr ()"
    using assms(12) assms(13) assms(3) assms(4) assms(7) by (rule print_diffs_returns)
  show ?thesis
    unfolding check_body_mass_grid [where ?grid1.0 = grid1 and ?grid2.0 = grid2,
        OF assms(1) assms(2)]
    by (simp add: snd_io_bind pyproj_transform_def assms(8) assms(11) 1 2)
qed

lemma snd_reproduce_wrf_grid:
  "snd (reproduce_wrf_grid l w) =
     bindE (get_wrf_proj l w) (\<lambda>proj_wrf_lcc.
     bindE (pyproj_Proj l ''+init=EPSG:4326'') (\<lambda>proj_wgs84.
     bindE (pyproj_Proj l ''+proj=latlong +a=6370 +b=6370 +towgs84=0,0,0 +no_defs'') (\<lambda>proj_sll.
     bindE (get_wrf_grid_params w) (\<lambda>gp.
     bindE (load_wrf_grids w) (\<lambda>grids_wrfout.
     bindE (snd (check_grid_consistency l (snd (reconstruct_grid gp)) grids_wrfout
                   proj_wrf_lcc proj_wgs84)) (\<lambda>_.
       Inr (reconstruct_grid gp)))))))"
  by (simp add: reproduce_wrf_grid_def snd_io_bind split_beta)

lemma bindE_eq_Inr: "bindE m f = Inr r \<Longrightarrow> \<exists>a. m = Inr a \<and> f a = Inr r"
  by (cases m) simp_all

lemma reproduce_wrf_grid_Inr:
  assumes "snd (reproduce_wrf_grid l w) = Inr r"
  shows "\<exists>gp. get_wrf_grid_params w = Inr gp \<and> r = reconstruct_grid gp"
proof -
  from assms [unfolded snd_reproduce_wrf_grid]
  obtain p1 where "bindE (pyproj_Proj l ''+init=EPSG:4326'') (\<lambda>proj_wgs84.
     bindE (pyproj_Proj l ''+proj=latlong +a=6370 +b=6370 +towgs84=0,0,0 +no_defs'') (\<lambda>proj_sll.
     bindE (get_wrf_grid_params w) (\<lambda>gp.
     bindE (load_wrf_grids w) (\<lambda>grids_wrfout.
     bindE (snd (check_grid_consistency l (snd (reconstruct_grid gp)) grids_wrfout
                   p1 proj_wgs84)) (\<lambda>_.
       Inr (reconstruct_grid gp)))))) = Inr r"
    by (blast dest: bindE_eq_Inr)
  then obtain p2 where "
     bindE (pyproj_Proj l ''+proj=latlong +a=6370 +b=6370 +towgs84=0,0,0 +no_defs'') (\<lambda>proj_sll.
     bindE (get_wrf_grid_params w) (\<lambda>gp.
     bindE (load_wrf_grids w) (\<lambda>grids_wrfout.
     bindE (snd (check_grid_consistency l (snd (reconstruct_grid gp)) grids_wrfout
                   p1 p2)) (\<lambda>_.
       Inr (reconstruct_grid gp))))) = Inr r"
    by (blast dest: bindE_eq_Inr)
  then have "
     bindE (get_wrf_grid_params w) (\<lambda>gp.
     bindE (load_wrf_grids w) (\<lambda>grids_wrfout.
     bindE (snd (check_grid_consistency l (snd (reconstruct_grid gp)) grids_wrfout
                   p1 p2)) (\<lambda>_.
       Inr (reconstruct_grid gp)))) = Inr r"
    by (blast dest: bindE_eq_Inr)
  then obtain gp where gp: "get_wrf_grid_params w = Inr gp" and "
     bindE (load_wrf_grids w) (\<lambda>grids_wrfout.
     bindE (snd (check_grid_consistency l (snd (reconstruct_grid gp)) grids_wrfout
                   p1 p2)) (\<lambda>_.
       Inr (reconstruct_grid gp))) = Inr r"
    by (blast dest: bindE_eq_Inr)
  then obtain gw where "
     bindE (snd (check_grid_consistency l (snd (reconstruct_grid gp)) gw
                   p1 p2)) (\<lambda>_.
       Inr (reconstruct_grid gp)) = Inr r"
    by (blast dest: bindE_eq_Inr)
  then have "Inr (reconstruct_grid gp) = (Inr r :: error + coords tuple1 \<times> grids)"
    by (blast dest: bindE_eq_Inr)
  with gp show ?thesis by simp
qed

lemma check_grid_consistency_returns:
  assumes "grid1 ''mass_grid'' = Some (x1, y1)" and "grid2 ''mass_grid'' = Some (x2, y2)"
    and "shape x1 = s" and "shape y1 = s" and "shape x2 = s" and "shape y2 = s"
    and "0 < fst s * snd s"
    and "transform l proj1 proj2 x1 y1 = Some (xt, yt)" and "shape xt = s" and "shape yt = s"
    and "transform l proj2 proj1 x2 y2 = Some (xt', yt')" and "shape xt' = s" and "shape yt' = s"
  shows "snd (check_grid_consistency l grid1 grid2 proj1 proj2) = Inr ()"
  unfolding check_grid_consistency_def
  by (rule snd_for_each_returns)
     (rule check_body_returns [where ?grid1.0 = grid1 and ?grid2.0 = grid2,
        OF assms(1) assms(2) assms(3) assms(4) assms(5) assms(6) assms(7) assms(8) assms(9)
           assms(10) assms(11) assms(12) assms(13)])

lemma check_grid_consistency_transform_cong:
  assumes "\<And>x y. transform l' p1 p2 x y = transform l p1 p2 x y"
    and "\<And>x y. transform l' p2 p1 x y = transform l p2 p1 x y"
  shows "check_grid_consistency l' g1 g2 p1 p2 = check_grid_consistency l g1 g2 p1 p2"
proof -
  have "check_body l' g1 g2 p1 p2 = check_body l g1 g2 p1 p2"
    by (rule ext) (simp add: check_body_def pyproj_transform_def assms)
  then show ?thesis
    by (simp only: check_grid_consistency_def)
qed

lemma get_wrf_proj_other_lib:
  "get_wrf_proj
     (l\<lparr>Proj := (Proj l)(''+proj=latlong +a=6370 +b=6370 +towgs84=0,0,0 +no_defs'' \<mapsto> s'),
        transform := t'\<rparr>) w
   = get_wrf_proj l w"
  by (simp add: get_wrf_proj_def pyproj_Proj_def Let_def cong: if_cong)

subsection \<open>The small dataset\<close>

lemma example_attrs:
  "attrs example_wrfout ''MAP_PROJ'' = Some 1"
  "attrs example_wrfout ''CEN_LON'' = Some 10"
  "attrs example_wrfout ''CEN_LAT'' = Some 52"
  "attrs example_wrfout ''TRUELAT1'' = Some 30"
  "attrs example_wrfout ''TRUELAT2'' = Some 60"
  "attrs example_wrfout ''DX'' = Some 1000"
  "attrs example_wrfout ''DY'' = Some 2000"
  "attrs example_wrfout ''WEST-EAST_PATCH_END_UNSTAG'' = Some 2"
  "attrs example_wrfout ''SOUTH-NORTH_PATCH_END_UNSTAG'' = Some 1"
  by (simp_all add: example_wrfout_def)

lemma example_get_wrf_proj:
  "get_wrf_proj example_lib example_wrfout
     = Inr ''+proj=lcc +lat_1=30.000000 +lat_2=60.000000 +lat_0=52.000000 +lon_0=10.000000 +a=6370000''"
  unfolding get_wrf_proj_lcc [OF example_attrs(1) example_attrs(2) example_attrs(3)
      example_attrs(4) example_attrs(5)]
  by (simp add: pyproj_Proj_def example_lib_def percent_f_eval del: dec_digits.simps)

lemma example_variables:
  "bindE (getattr_var example_wrfout ''XLONG'') isel_Time0 = Inr example_array"
  "bindE (getattr_var example_wrfout ''XLAT'') isel_Time0 = Inr example_array"
  "bindE (getattr_var example_wrfout ''XLONG_U'') isel_Time0 = Inr example_array"
  "bindE (getattr_var example_wrfout ''XLAT_U'') isel_Time0 = Inr example_array"
  "bindE (getattr_var example_wrfout ''XLONG_V'') isel_Time0 = Inr example_array"
  "bindE (getattr_var example_wrfout ''XLAT_V'') isel_Time0 = Inr example_array"
  by (simp_all add: getattr_var_def isel_Time0_def example_wrfout_def)

lemma example_load_wrf_grids:
  "load_wrf_grids example_wrfout =
     Inr [''mass_grid'' \<mapsto> (example_array, example_array),
          ''u_grid'' \<mapsto> (example_array, example_array),
          ''v_grid'' \<mapsto> (example_array, example_array)]"
  unfolding load_wrf_grids_def example_variables bindE_Inr ..

lemma example_get_wrf_grid_params:
  "get_wrf_grid_params example_wrfout = Inr \<lparr>dx = 1000, dy = 2000, nx = 2, ny = 1\<rparr>"
  by (simp add: get_wrf_grid_params_def getattr_num_def attrs_getitem_def example_wrfout_def)

lemma example_mass_grid:
  "\<exists>X Y. snd (reconstruct_grid \<lparr>dx = 1000, dy = 2000, nx = 2, ny = 1\<rparr>) ''mass_grid'' = Some (X, Y)
         \<and> shape X = (1, 2) \<and> shape Y = (1, 2)"
proof -
  have "length (make_grid_coordinate (of_int 2) 1000) = nat 2"
    and "length (make_grid_coordinate (of_int 1) 2000) = nat 1"
    by (rule length_make_grid_coordinate)+
  then have "length (make_grid_coordinate 2 1000) = 2"
    and "length (make_grid_coordinate 1 2000) = 1"
    by simp_all
  then show ?thesis
    by (simp add: reconstruct_grid_grids meshgrid_def)
qed

lemma example_reproduce_wrf_grid_returns:
  "\<exists>r. snd (reproduce_wrf_grid example_lib example_wrfout) = Inr r"
proof -
  define g :: grids where
    "g = [''mass_grid'' \<mapsto> (example_array, example_array),
          ''u_grid'' \<mapsto> (example_array, example_array),
          ''v_grid'' \<mapsto> (example_array, example_array)]"
  have g: "load_wrf_grids example_wrfout = Inr g"
      "g ''mass_grid'' = Some (example_array, example_array)"
    by (simp_all add: example_load_wrf_grids g_def)
  obtain X Y where m: "snd (reconstruct_grid \<lparr>dx = 1000, dy = 2000, nx = 2, ny = 1\<rparr>) ''mass_grid''
        = Some (X, Y)" "shape X = (1, 2)" "shape Y = (1, 2)"
    using example_mass_grid by blast
  have s: "shape example_array = (1, 2)"
    by (simp add: example_array_def)
  have t: "transform example_lib p q x y = Some (x, y)" for p q x y
    by (simp add: example_lib_def)
  have p: "pyproj_Proj example_lib str = Inr str" for str
    by (simp add: pyproj_Proj_def example_lib_def)
  have "snd (check_grid_consistency example_lib
               (snd (reconstruct_grid \<lparr>dx = 1000, dy = 2000, nx = 2, ny = 1\<rparr>)) g p q) = Inr ()"
    for p q
    by (rule check_grid_consistency_returns
          [where ?grid1.0 = "snd (reconstruct_grid \<lparr>dx = 1000, dy = 2000, nx = 2, ny = 1\<rparr>)"
             and ?grid2.0 = g, OF m(1) g(2) m(2) m(3) s s _ t m(2) m(3) t s s])
       simp
  then show ?thesis
    by (simp add: snd_reproduce_wrf_grid example_get_wrf_proj example_get_wrf_grid_params g(1) p)
qed

section \<open>The claims\<close>

text \<open>
  C1: each staggered axis is built from the parameters of its own direction, so the
  y-staggered axis has \<open>ny + 1\<close> points at spacing \<open>dy\<close>. The script builds
  \<open>y_stag\<close> from \<open>nx\<close> and \<open>dx\<close> (lemma \<open>coords_axis_y_stag\<close>): for
  \<open>nx = 4\<close>, \<open>ny = 3\<close>, \<open>dx = 1000\<close>, \<open>dy = 2000\<close> it has five points at spacing
  1000, where the axis of \<open>ny + 1 = 4\<close> points at spacing 2000 is
  \<open>[-3000, -1000, 1000, 3000]\<close>.
\<close>

theorem y_stag_built_from_x_parameters:
  "coords_axis (reconstruct_grid \<lparr>dx = 1000, dy = 2000, nx = 4, ny = 3\<rparr>) ''y_stag''
     = Inr [- 2000, - 1000, 0, 1000, 2000]
   \<and> make_grid_coordinate (3 + 1) 2000 = [- 3000, - 1000, 1000, 3000]"
  by code_simp

text \<open>
  C2: the mass grid has shape \<open>(ny, nx)\<close>, the u-grid \<open>(ny, nx + 1)\<close> and the v-grid
  \<open>(ny + 1, nx)\<close>. The first two hold; the v-grid is built on \<open>y_stag\<close> and so has
  \<open>nx + 1\<close> rows (lemma \<open>reconstruct_grid_shapes\<close>): for \<open>nx = 4\<close>, \<open>ny = 3\<close> its
  shape is \<open>(5, 4)\<close>, not \<open>(4, 4)\<close>.
\<close>

theorem v_grid_shape_follows_nx:
  "grid_shape (reconstruct_grid \<lparr>dx = 1000, dy = 2000, nx = 4, ny = 3\<rparr>) ''mass_grid''
     = Inr ((3, 4), (3, 4))
   \<and> grid_shape (reconstruct_grid \<lparr>dx = 1000, dy = 2000, nx = 4, ny = 3\<rparr>) ''u_grid''
     = Inr ((3, 5), (3, 5))
   \<and> grid_shape (reconstruct_grid \<lparr>dx = 1000, dy = 2000, nx = 4, ny = 3\<rparr>) ''v_grid''
     = Inr ((5, 4), (5, 4))"
  by code_simp




text \<open>
  C5: with \<open>nx = 4\<close>, \<open>ny = 3\<close>, \<open>dx = 1000\<close>, \<open>dy = 2000\<close> the mass x-axis is
  \<open>[-1500, -500, 500, 1500]\<close>, the mass y-axis is \<open>[-2000, 0, 2000]\<close> and both arrays
  of the mass grid have shape \<open>(3, 4)\<close>; the axis of five points at spacing 1000 is
  \<open>[-2000, -1000, 0, 1000, 2000]\<close>.
\<close>

theorem reconstruction_scenarios:
  "coords_axis (reconstruct_grid \<lparr>dx = 1000, dy = 2000, nx = 4, ny = 3\<rparr>) ''x''
     = Inr [- 1500, - 500, 500, 1500]
   \<and> coords_axis (reconstruct_grid \<lparr>dx = 1000, dy = 2000, nx = 4, ny = 3\<rparr>) ''y''
     = Inr [- 2000, 0, 2000]
   \<and> grid_shape (reconstruct_grid \<lparr>dx = 1000, dy = 2000, nx = 4, ny = 3\<rparr>) ''mass_grid''
     = Inr ((3, 4), (3, 4))
   \<and> make_grid_coordinate 5 1000 = [- 2000, - 1000, 0, 1000, 2000]"
  by code_simp

text \<open>
  C8: the first component of the pair \<open>reconstruct_grid\<close> returns is a tuple of length
  one whose element is the dictionary of the axes, with the keys \<open>x\<close>, \<open>y\<close>,
  \<open>x_stag\<close>, \<open>y_stag\<close>; indexing it with 0 gives the dictionary.
\<close>

theorem coords_is_tuple_of_length_one:
  "\<exists>d. fst (reconstruct_grid gp) = Tuple1 d
      \<and> dom d = {''x'', ''y'', ''x_stag'', ''y_stag''}
      \<and> tuple1_getitem (fst (reconstruct_grid gp)) 0 = Inr d"
  unfolding reconstruct_grid_coords by auto





text \<open>
  C6: \<open>get_wrf_proj\<close> raises the error for an unsupported projection exactly when the
  dataset has a code \<open>MAP_PROJ\<close> other than 1. With the code 1 and the four attributes
  present it returns what \<open>pyproj.Proj\<close> makes of the Lambert definition string built
  from \<open>TRUELAT1\<close>, \<open>TRUELAT2\<close>, \<open>CEN_LAT\<close>, \<open>CEN_LON\<close> and the radius
  \<open>6370000\<close>.
\<close>

theorem get_wrf_proj_unsupported_iff_not_lcc:
  "(get_wrf_proj l w = Inl (ValueError ''This WRF output is not on a Lambert grid''))
     = (\<exists>code. attrs w ''MAP_PROJ'' = Some code \<and> code \<noteq> 1)
   \<and> (attrs w ''MAP_PROJ'' = Some 1 \<and> attrs w ''CEN_LON'' = Some clon
        \<and> attrs w ''CEN_LAT'' = Some clat \<and> attrs w ''TRUELAT1'' = Some lat1
        \<and> attrs w ''TRUELAT2'' = Some lat2 \<longrightarrow>
      get_wrf_proj l w =
        pyproj_Proj l (''+proj=lcc +lat_1='' @ format_f l lat1 @ '' +lat_2='' @ format_f l lat2
          @ '' +lat_0='' @ format_f l clat @ '' +lon_0='' @ format_f l clon @ '' +a=6370000''))"
proof (intro conjI impI)
  show "(get_wrf_proj l w = Inl (ValueError ''This WRF output is not on a Lambert grid''))
     = (\<exists>code. attrs w ''MAP_PROJ'' = Some code \<and> code \<noteq> 1)"
  proof (cases "attrs w ''MAP_PROJ''")
    case None
    then show ?thesis by (simp add: get_wrf_proj_no_code)
  next
    case (Some code)
    show ?thesis
    proof (cases "code = 1")
      case True
      with Some show ?thesis by (simp add: get_wrf_proj_lcc_not_unsupported)
    next
      case False
      with Some show ?thesis by (simp add: get_wrf_proj_other_code)
    qed
  qed
next
  assume "attrs w ''MAP_PROJ'' = Some 1 \<and> attrs w ''CEN_LON'' = Some clon
        \<and> attrs w ''CEN_LAT'' = Some clat \<and> attrs w ''TRUELAT1'' = Some lat1
        \<and> attrs w ''TRUELAT2'' = Some lat2"
  then show "get_wrf_proj l w =
        pyproj_Proj l (''+proj=lcc +lat_1='' @ format_f l lat1 @ '' +lat_2='' @ format_f l lat2
          @ '' +lat_0='' @ format_f l clat @ '' +lon_0='' @ format_f l clon @ '' +a=6370000'')"
    by (simp add: get_wrf_proj_lcc)
qed

text \<open>
  An instance: the small dataset has the code 1; with the code 2 instead the error is
  raised.
\<close>

theorem get_wrf_proj_unsupported_iff_not_lcc_witness:
  "get_wrf_proj example_lib example_wrfout
     = Inr ''+proj=lcc +lat_1=30.000000 +lat_2=60.000000 +lat_0=52.000000 +lon_0=10.000000 +a=6370000''
   \<and> get_wrf_proj example_lib (example_wrfout\<lparr>attrs := (attrs example_wrfout)(''MAP_PROJ'' \<mapsto> 2)\<rparr>)
     = Inl (ValueError ''This WRF output is not on a Lambert grid'')"
proof -
  have a: "attrs example_wrfout ''MAP_PROJ'' = Some 1 \<and> attrs example_wrfout ''CEN_LON'' = Some 10
        \<and> attrs example_wrfout ''CEN_LAT'' = Some 52 \<and> attrs example_wrfout ''TRUELAT1'' = Some 30
        \<and> attrs example_wrfout ''TRUELAT2'' = Some 60"
    by (simp add: example_wrfout_def)
  have "get_wrf_proj example_lib example_wrfout =
        pyproj_Proj example_lib (''+proj=lcc +lat_1='' @ format_f example_lib 30
          @ '' +lat_2='' @ format_f example_lib 60
          @ '' +lat_0='' @ format_f example_lib 52 @ '' +lon_0='' @ format_f example_lib 10
          @ '' +a=6370000'')"
    by (rule get_wrf_proj_unsupported_iff_not_lcc [of example_lib example_wrfout 10 52 30 60, THEN conjunct2, THEN mp, OF a])
  also have "\<dots> = Inr ''+proj=lcc +lat_1=30.000000 +lat_2=60.000000 +lat_0=52.000000 +lon_0=10.000000 +a=6370000''"
    by (simp add: pyproj_Proj_def example_lib_def percent_f_eval del: dec_digits.simps)
  finally have 1: "get_wrf_proj example_lib example_wrfout
     = Inr ''+proj=lcc +lat_1=30.000000 +lat_2=60.000000 +lat_0=52.000000 +lon_0=10.000000 +a=6370000''" .
  have "attrs (example_wrfout\<lparr>attrs := (attrs example_wrfout)(''MAP_PROJ'' \<mapsto> 2)\<rparr>) ''MAP_PROJ''
        = Some 2 \<and> (2::rat) \<noteq> 1"
    by simp
  then have "\<exists>code. attrs (example_wrfout\<lparr>attrs := (attrs example_wrfout)(''MAP_PROJ'' \<mapsto> 2)\<rparr>)
        ''MAP_PROJ'' = Some code \<and> code \<noteq> 1"
    by (rule exI)
  then have 2: "get_wrf_proj example_lib
         (example_wrfout\<lparr>attrs := (attrs example_wrfout)(''MAP_PROJ'' \<mapsto> 2)\<rparr>)
     = Inl (ValueError ''This WRF output is not on a Lambert grid'')"
    by (rule get_wrf_proj_unsupported_iff_not_lcc [of example_lib "example_wrfout\<lparr>attrs := (attrs example_wrfout)(''MAP_PROJ'' \<mapsto> 2)\<rparr>",
          THEN conjunct1, THEN iffD2])
  from 1 2 show ?thesis by (rule conjI)
qed

text \<open>
  C7: when \<open>reproduce_wrf_grid\<close> returns, it returns the pair that
  \<open>reconstruct_grid\<close> gives on the grid parameters read from the dataset. The
  consistency check does not raise on a numeric mismatch: whatever the numbers in the
  arrays, it returns as soon as the four mass-grid arrays and the transformed arrays have
  one common non-empty shape.
\<close>

theorem reproduce_wrf_grid_returns_reconstruction:
  "(snd (reproduce_wrf_grid l w) = Inr r \<longrightarrow>
      (\<exists>gp. get_wrf_grid_params w = Inr gp \<and> r = reconstruct_grid gp))
   \<and> (grid1 ''mass_grid'' = Some (x1, y1) \<and> grid2 ''mass_grid'' = Some (x2, y2)
        \<and> shape x1 = s \<and> shape y1 = s \<and> shape x2 = s \<and> shape y2 = s
        \<and> 0 < fst s * snd s
        \<and> transform l proj1 proj2 x1 y1 = Some (xt, yt) \<and> shape xt = s \<and> shape yt = s
        \<and> transform l proj2 proj1 x2 y2 = Some (xt', yt') \<and> shape xt' = s \<and> shape yt' = s
      \<longrightarrow> snd (check_grid_consistency l grid1 grid2 proj1 proj2) = Inr ())"
proof (intro conjI impI)
  assume "snd (reproduce_wrf_grid l w) = Inr r"
  then show "\<exists>gp. get_wrf_grid_params w = Inr gp \<and> r = reconstruct_grid gp"
    by (rule reproduce_wrf_grid_Inr)
next
  assume a: "grid1 ''mass_grid'' = Some (x1, y1) \<and> grid2 ''mass_grid'' = Some (x2, y2)
        \<and> shape x1 = s \<and> shape y1 = s \<and> shape x2 = s \<and> shape y2 = s
        \<and> 0 < fst s * snd s
        \<and> transform l proj1 proj2 x1 y1 = Some (xt, yt) \<and> shape xt = s \<and> shape yt = s
        \<and> transform l proj2 proj1 x2 y2 = Some (xt', yt') \<and> shape xt' = s \<and> shape yt' = s"
  show "snd (check_grid_consistency l grid1 grid2 proj1 proj2) = Inr ()"
    by (rule check_grid_consistency_returns [where ?grid1.0 = grid1 and ?grid2.0 = grid2
          and s = s and xt = xt and yt = yt and xt' = xt' and yt' = yt'
          and ?x1.0 = x1 and ?y1.0 = y1 and ?x2.0 = x2 and ?y2.0 = y2])
       (simp_all only: a)
qed

text \<open>
  An instance: the small dataset, and a check of two grids whose numbers differ.
\<close>

theorem reproduce_wrf_grid_returns_reconstruction_witness:
  "snd (reproduce_wrf_grid example_lib example_wrfout)
     = Inr (reconstruct_grid \<lparr>dx = 1000, dy = 2000, nx = 2, ny = 1\<rparr>)
   \<and> snd (check_grid_consistency example_lib
            [''mass_grid'' \<mapsto> (example_array, example_array)]
            [''mass_grid'' \<mapsto> (example_other_array, example_other_array)] ''lcc'' ''wgs84'')
     = Inr ()"
proof
  obtain r where r: "snd (reproduce_wrf_grid example_lib example_wrfout) = Inr r"
    using example_reproduce_wrf_grid_returns by blast
  then have "\<exists>gp. get_wrf_grid_params example_wrfout = Inr gp \<and> r = reconstruct_grid gp"
    by (rule reproduce_wrf_grid_returns_reconstruction [THEN conjunct1, THEN mp])
  then have "r = reconstruct_grid \<lparr>dx = 1000, dy = 2000, nx = 2, ny = 1\<rparr>"
    by (simp add: example_get_wrf_grid_params)
  with r show "snd (reproduce_wrf_grid example_lib example_wrfout)
     = Inr (reconstruct_grid \<lparr>dx = 1000, dy = 2000, nx = 2, ny = 1\<rparr>)"
    by simp
next
  have "[''mass_grid'' \<mapsto> (example_array, example_array)] ''mass_grid''
          = Some (example_array, example_array)
        \<and> [''mass_grid'' \<mapsto> (example_other_array, example_other_array)] ''mass_grid''
          = Some (example_other_array, example_other_array)
        \<and> shape example_array = (1, 2) \<and> shape example_array = (1, 2)
        \<and> shape example_other_array = (1, 2) \<and> shape example_other_array = (1, 2)
        \<and> 0 < fst (1::nat, 2::nat) * snd (1::nat, 2::nat)
        \<and> transform example_lib ''lcc'' ''wgs84'' example_array example_array
          = Some (example_array, example_array)
        \<and> shape example_array = (1, 2) \<and> shape example_array = (1, 2)
        \<and> transform example_lib ''wgs84'' ''lcc'' example_other_array example_other_array
          = Some (example_other_array, example_other_array)
        \<and> shape example_other_array = (1, 2) \<and> shape example_other_array = (1, 2)"
    by (simp add: example_array_def example_other_array_def example_lib_def)
  then show "snd (check_grid_consistency example_lib
            [''mass_grid'' \<mapsto> (example_array, example_array)]
            [''mass_grid'' \<mapsto> (example_other_array, example_other_array)] ''lcc'' ''wgs84'')
     = Inr ()"
    by (rule reproduce_wrf_grid_returns_reconstruction [THEN conjunct2, THEN mp])
qed

text \<open>
  C10: \<open>reproduce_wrf_grid\<close> builds the spherical latitude/longitude projection
  \<open>proj_sll\<close> and never uses it, and its consistency check transforms only between the
  Lambert projection of the dataset and the WGS84 projection. So, provided
  \<open>pyproj.Proj\<close> accepts the definition of \<open>proj_sll\<close>, neither the object it returns
  for it nor what \<open>pyproj.transform\<close> does on other pairs of projections changes the
  output or the result.
\<close>

theorem reproduce_wrf_grid_ignores_proj_sll:
  assumes "Proj l ''+proj=latlong +a=6370 +b=6370 +towgs84=0,0,0 +no_defs'' = Some s"
    and "\<And>lcc wgs84 x y.
           get_wrf_proj l w = Inr lcc \<Longrightarrow> Proj l ''+init=EPSG:4326'' = Some wgs84 \<Longrightarrow>
           t' lcc wgs84 x y = transform l lcc wgs84 x y
           \<and> t' wgs84 lcc x y = transform l wgs84 lcc x y"
  shows "reproduce_wrf_grid
           (l\<lparr>Proj := (Proj l)(''+proj=latlong +a=6370 +b=6370 +towgs84=0,0,0 +no_defs'' \<mapsto> s'),
              transform := t'\<rparr>) w
         = reproduce_wrf_grid l w"
proof (cases "get_wrf_proj l w")
  case (Inl e)
  then show ?thesis
    by (simp add: reproduce_wrf_grid_def get_wrf_proj_other_lib)
next
  case lcc: (Inr lcc)
  show ?thesis
  proof (cases "Proj l ''+init=EPSG:4326''")
    case None
    then show ?thesis
      by (simp add: reproduce_wrf_grid_def get_wrf_proj_other_lib lcc pyproj_Proj_def)
  next
    case (Some wgs84)
    have t: "transform (l\<lparr>Proj := (Proj l)(''+proj=latlong +a=6370 +b=6370 +towgs84=0,0,0 +no_defs'' \<mapsto> s'),
              transform := t'\<rparr>) p q x y = t' p q x y" for p q x y
      by simp
    have c: "check_grid_consistency
               (l\<lparr>Proj := (Proj l)(''+proj=latlong +a=6370 +b=6370 +towgs84=0,0,0 +no_defs'' \<mapsto> s'),
                  transform := t'\<rparr>) g1 g2 lcc wgs84
             = check_grid_consistency l g1 g2 lcc wgs84" for g1 g2
      by (rule check_grid_consistency_transform_cong)
         (simp_all only: t assms(2) [OF lcc Some])
    show ?thesis
      by (simp add: reproduce_wrf_grid_def get_wrf_proj_other_lib lcc pyproj_Proj_def Some
          assms(1) c)
  qed
qed

text \<open>
  An instance: with \<open>proj_sll\<close> an object that no transformation accepts, the small
  dataset is processed as before.
\<close>

theorem reproduce_wrf_grid_ignores_proj_sll_witness:
  "reproduce_wrf_grid example_lib_sphere example_wrfout
     = reproduce_wrf_grid example_lib example_wrfout
   \<and> snd (reproduce_wrf_grid example_lib_sphere example_wrfout)
     = Inr (reconstruct_grid \<lparr>dx = 1000, dy = 2000, nx = 2, ny = 1\<rparr>)"
proof -
  have p: "Proj example_lib str = Some str" for str
    by (simp add: example_lib_def)
  have tr: "transform example_lib a b x y = Some (x, y)" for a b x y
    by (simp add: example_lib_def)
  have t: "(if lcc = ''sphere'' \<or> wgs84 = ''sphere'' then None else Some (x, y))
             = transform example_lib lcc wgs84 x y
           \<and> (if wgs84 = ''sphere'' \<or> lcc = ''sphere'' then None else Some (x, y))
             = transform example_lib wgs84 lcc x y"
    if "get_wrf_proj example_lib example_wrfout = Inr lcc"
      and "Proj example_lib ''+init=EPSG:4326'' = Some wgs84" for lcc wgs84 x y
  proof -
    from that(1) have "lcc \<noteq> ''sphere''"
      unfolding example_get_wrf_proj by auto
    moreover from that(2) have "wgs84 \<noteq> ''sphere''"
      unfolding p by auto
    ultimately show ?thesis
      by (simp add: tr)
  qed
  have e: "reproduce_wrf_grid example_lib_sphere example_wrfout
     = reproduce_wrf_grid example_lib example_wrfout"
    unfolding example_lib_sphere_def
    by (rule reproduce_wrf_grid_ignores_proj_sll [OF p t])
  obtain r where r: "snd (reproduce_wrf_grid example_lib example_wrfout) = Inr r"
    using example_reproduce_wrf_grid_returns by blast
  then have "\<exists>gp. get_wrf_grid_params example_wrfout = Inr gp \<and> r = reconstruct_grid gp"
    by (rule reproduce_wrf_grid_Inr)
  then have "r = reconstruct_grid \<lparr>dx = 1000, dy = 2000, nx = 2, ny = 1\<rparr>"
    by (simp add: example_get_wrf_grid_params)
  with r e show ?thesis by simp
qed

end
